theory Spec2Isabelle
  imports Main
begin

section \<open>Data model\<close>

text \<open>
  The authorization scheme of a client (\<^verbatim>\<open>APIAuthorizationType\<close>): the three string
  literals the SDK methods compare \<^verbatim>\<open>authType\<close> with.
\<close>

datatype APIAuthorizationType = bearer | pat | sk

datatype Method = GET | POST | PUT | PATCH | DELETE

text \<open>
  \<^verbatim>\<open>API.Ignite.ContainerState\<close>: the members the sources name
  (\<^verbatim>\<open>updateContainerState\<close> and the container facade).
\<close>

datatype ContainerState = PENDING | RUNNING | STOPPED

text \<open>
  \<^verbatim>\<open>API.Ignite.DeploymentConfig\<close>: \<^verbatim>\<open>createDeployment\<close> reads
  \<^verbatim>\<open>config.resources.ram\<close> only and forwards the config as the request body.
\<close>

record Resources =
  ram :: string

record DeploymentConfig =
  resources :: Resources

datatype payload = ConfigBody DeploymentConfig | StateBody ContainerState

text \<open>
  One call of the API client: the method, the path template, the body argument
  (\<open>None\<close> when the call passes none or \<^verbatim>\<open>undefined\<close>) and the parameter object with
  its keys in source order (\<open>None\<close> for \<^verbatim>\<open>undefined\<close>, \<open>Some []\<close> for \<^verbatim>\<open>{}\<close>).
\<close>

record request =
  httpMethod :: Method
  path :: string
  body :: "payload option"
  query :: "(string \<times> string) list option"

text \<open>
  What a call can raise: a plain JavaScript \<^verbatim>\<open>Error\<close> with its message, the identifier
  error of \<^verbatim>\<open>assertId\<close>, and the two failures of a dispatched request (an error answer
  of the server with its status, code and message, or no answer at all).
\<close>

datatype error =
    Error string
  | InvalidIdentifier string string
  | ApiError nat string string
  | NetworkError

text \<open>
  The API client as the SDK methods see it: the scheme tag they read and, as the only
  thing a call changes, the requests handed to the network so far, oldest first.
\<close>

record APIClient =
  authType :: APIAuthorizationType
  dispatched :: "request list"

section \<open>JavaScript truthiness of optional strings\<close>

text \<open>
  An optional string argument is \<^verbatim>\<open>undefined\<close> (\<open>None\<close>) or a string. In a condition
  such as \<^verbatim>\<open>!teamId\<close> or \<^verbatim>\<open>team ? a : b\<close> the empty string counts as false, like
  \<^verbatim>\<open>undefined\<close> and \<^verbatim>\<open>null\<close>.
\<close>

definition truthy :: "string option \<Rightarrow> bool" where
  "truthy v = (case v of None \<Rightarrow> False | Some s \<Rightarrow> s \<noteq> [])"

section \<open>The request dispatcher\<close>

text \<open>
  Modelled from the spec: the methods \<^verbatim>\<open>get\<close>, \<^verbatim>\<open>post\<close>, \<^verbatim>\<open>patch\<close> and
  \<^verbatim>\<open>delete\<close> of \<^verbatim>\<open>APIClient\<close> (rest/client is not among the sources). Each issues
  one HTTP request, a single attempt, and returns the parsed answer or raises the
  server's or the transport's error. The server is the parameter \<open>srv\<close>; the path
  template and the parameter object are recorded as the caller passes them.
\<close>

definition client_request ::
  "(request \<Rightarrow> error + 'r) \<Rightarrow> Method \<Rightarrow> string \<Rightarrow> payload option \<Rightarrow>
   (string \<times> string) list option \<Rightarrow> APIClient \<Rightarrow> (error + 'r) \<times> APIClient" where
  "client_request srv m p b q client =
     (let req = \<lparr>httpMethod = m, path = p, body = b, query = q\<rparr>
      in (srv req, client\<lparr>dispatched := dispatched client @ [req]\<rparr>))"

definition client_get ::
  "(request \<Rightarrow> error + 'r) \<Rightarrow> string \<Rightarrow> (string \<times> string) list option \<Rightarrow>
   APIClient \<Rightarrow> (error + 'r) \<times> APIClient" where
  "client_get srv p q client = client_request srv GET p None q client"

definition client_post ::
  "(request \<Rightarrow> error + 'r) \<Rightarrow> string \<Rightarrow> payload option \<Rightarrow>
   (string \<times> string) list option \<Rightarrow> APIClient \<Rightarrow> (error + 'r) \<times> APIClient" where
  "client_post srv p b q client = client_request srv POST p b q client"

definition client_patch ::
  "(request \<Rightarrow> error + 'r) \<Rightarrow> string \<Rightarrow> payload option \<Rightarrow>
   (string \<times> string) list option \<Rightarrow> APIClient \<Rightarrow> (error + 'r) \<times> APIClient" where
  "client_patch srv p b q client = client_request srv PATCH p b q client"

section \<open>The Ignite SDK (sdks/ignite.ts)\<close>

text \<open>
  Every method takes the SDK's \<^verbatim>\<open>this.client\<close> and returns what the awaited call
  gives (\<open>Inl\<close> an error raised, \<open>Inr\<close> the server's answer) with the client afterwards.
\<close>

definition getAllDeployments ::
  "(request \<Rightarrow> error + 'r) \<Rightarrow> string option \<Rightarrow> APIClient \<Rightarrow> (error + 'r) \<times> APIClient" where
  "getAllDeployments srv teamId client =
     (if authType client \<noteq> sk \<and> \<not> truthy teamId then
        (Inl (Error ''Team ID is required for Bearer or PAT authorization''), client)
      else if authType client = sk \<and> truthy teamId then
        (Inl (Error ''Team ID is not required for secret authorization''), client)
      else
        client_get srv ''/v1/ignite/deployments''
          (case teamId of
             None \<Rightarrow> Some []
           | Some t \<Rightarrow> if t \<noteq> [] then Some [(''team'', t)] else Some [])
          client)"

section \<open>The identifier model\<close>

text \<open>
  Modelled from the spec: \<^verbatim>\<open>validateId\<close> (rest/ is not among the sources). An
  identifier is a type-tag prefix and an opaque suffix, as in \<^verbatim>\<open>deployment_abc123\<close>;
  \<^verbatim>\<open>validate(id, kind)\<close> checks that the prefix of \<^verbatim>\<open>id\<close> matches the expected
  kind and never raises.
\<close>

definition validateId :: "string \<Rightarrow> string \<Rightarrow> bool" where
  "validateId maybeId prefix = (take (length prefix + 1) maybeId = prefix @ ''_'')"

text \<open>
  Modelled from the spec: \<^verbatim>\<open>assertId\<close> (rest/ is not among the sources), the same
  check as \<^verbatim>\<open>validateId\<close>, raising the identifier error on a mismatch.
\<close>

definition assertId :: "string \<Rightarrow> string \<Rightarrow> error + unit" where
  "assertId maybeId prefix =
     (if validateId maybeId prefix then Inr () else Inl (InvalidIdentifier maybeId prefix))"

section \<open>Ignite.getDeployment (sdks/ignite.ts)\<close>

text \<open>
  The argument checks leave either an error or the pair \<^verbatim>\<open>(team, realNameOrId)\<close>;
  the lookup that follows them goes by ID or by name. In the first branch
  \<^verbatim>\<open>nameOrId\<close> is a non-empty string, so the \<open>None\<close> case of reading it is never
  reached.
\<close>

definition getDeployment ::
  "(request \<Rightarrow> error + 'r) \<Rightarrow> string \<Rightarrow> string option \<Rightarrow> APIClient \<Rightarrow>
   (error + 'r) \<times> APIClient" where
  "getDeployment srv teamOrNameOrId nameOrId client =
     (let checked =
        (if teamOrNameOrId \<noteq> [] \<and> truthy nameOrId then
           (if authType client = sk then
              Inl (Error ''Team ID is not required for secret authorization'')
            else
              (case assertId teamOrNameOrId ''team'' of
                 Inl e \<Rightarrow> Inl e
               | Inr _ \<Rightarrow>
                   Inr (Some teamOrNameOrId, (case nameOrId of Some n \<Rightarrow> n | None \<Rightarrow> []))))
         else if teamOrNameOrId \<noteq> [] \<and> \<not> truthy nameOrId then
           (if authType client \<noteq> sk then
              Inl (Error ''Team ID is required for bearer or PAT authorization'')
            else Inr (None, teamOrNameOrId))
         else Inl (Error ''Team ID is required for bearer or PAT authorization''))
      in case checked of
           Inl e \<Rightarrow> (Inl e, client)
         | Inr (team, realNameOrId) \<Rightarrow>
             if validateId realNameOrId ''deployment'' then
               client_get srv ''/v1/ignite/deployments/:deployment_id''
                 (case team of
                    Some t \<Rightarrow>
                      if t \<noteq> [] then Some [(''team'', t), (''deployment_id'', realNameOrId)]
                      else Some [(''deployment_id'', realNameOrId)]
                  | None \<Rightarrow> Some [(''deployment_id'', realNameOrId)])
                 client
             else
               client_get srv ''/v1/ignite/deployments/search''
                 (Some [(''name'', realNameOrId)]) client)"

section \<open>Ignite.createDeployment (sdks/ignite.ts)\<close>

definition SIX_MB_IN_BYTES :: int where
  "SIX_MB_IN_BYTES = 6 * 1024 * 1024"

text \<open>
  The first argument is a team ID (a string) or a deployment config (an object): the
  test \<^verbatim>\<open>typeof configOrTeam === 'object'\<close> tells them apart.
\<close>

datatype configOrTeam = Team string | Config DeploymentConfig

text \<open>
  \<^verbatim>\<open>parseSize\<close> (util/ is not among the sources, and the spec does not describe it)
  is a parameter: any function from the size string to a number of bytes.
\<close>

definition createDeployment ::
  "(string \<Rightarrow> int) \<Rightarrow> (request \<Rightarrow> error + 'r) \<Rightarrow> configOrTeam \<Rightarrow>
   DeploymentConfig option \<Rightarrow> APIClient \<Rightarrow> (error + 'r) \<times> APIClient" where
  "createDeployment parseSize srv configOrTeam bearerOrPatConfig client =
     (let checked =
        (case configOrTeam of
           Config c \<Rightarrow>
             if authType client = sk then Inr (c, None)
             else Inl (Error ''First argument must be the team ID when using bearer authorization to create deployments.'')
         | Team t \<Rightarrow>
             (case bearerOrPatConfig of
                None \<Rightarrow> Inl (Error ''Second argument must be the deployment config when using bearer authorization to create deployments.'')
              | Some c \<Rightarrow>
                  if authType client = bearer \<or> authType client = pat then Inr (c, Some t)
                  else Inl (Error ''Only argument must be the config when using secret authorization to create deployments.'')))
      in case checked of
           Inl e \<Rightarrow> (Inl e, client)
         | Inr (config, team) \<Rightarrow>
             if parseSize (ram (resources config)) \<le> SIX_MB_IN_BYTES then
               (Inl (Error ''Allocated memory must be greater than 6MB when creating a deployment.''), client)
             else
               client_post srv ''/v1/ignite/deployments'' (Some (ConfigBody config))
                 (case team of
                    Some t \<Rightarrow> if t \<noteq> [] then Some [(''team'', t)] else Some []
                  | None \<Rightarrow> Some [])
                 client)"

section \<open>Ignite.updateContainerState (sdks/ignite.ts)\<close>

text \<open>The awaited answer is dropped: the method returns nothing on success.\<close>

definition updateContainerState ::
  "(request \<Rightarrow> error + 'r) \<Rightarrow> string \<Rightarrow> ContainerState \<Rightarrow> APIClient \<Rightarrow>
   (error + unit) \<times> APIClient" where
  "updateContainerState srv container state client =
     (case client_patch srv ''/v1/ignite/containers/:container_id/state''
             (Some (StateBody state)) (Some [(''container_id'', container)]) client of
        (Inl e, client') \<Rightarrow> (Inl e, client')
      | (Inr _, client') \<Rightarrow> (Inr (), client'))"

section \<open>The stand-alone Ignite class (unnamed part 001)\<close>

text \<open>
  This version of the class keeps its own \<^verbatim>\<open>authType\<close> beside its \<^verbatim>\<open>client\<close>, lists
  deployments under the name \<^verbatim>\<open>getDeployments\<close>, and passes \<^verbatim>\<open>undefined\<close> where
  sdks/ignite.ts passes \<^verbatim>\<open>{}\<close>.
\<close>

record Ignite =
  Ignite_client :: APIClient
  Ignite_authType :: APIAuthorizationType

definition getDeployments ::
  "(request \<Rightarrow> error + 'r) \<Rightarrow> string option \<Rightarrow> Ignite \<Rightarrow> (error + 'r) \<times> Ignite" where
  "getDeployments srv teamId this =
     (if Ignite_authType this = bearer \<and> \<not> truthy teamId then
        (Inl (Error ''Team ID is required for Bearer or PAT authorization''), this)
      else if truthy teamId \<and> Ignite_authType this = sk then
        (Inl (Error ''Team ID is not required for secret authorization''), this)
      else
        (case client_get srv ''/v1/ignite/deployments''
                (case teamId of
                   None \<Rightarrow> None
                 | Some t \<Rightarrow> if t \<noteq> [] then Some [(''team'', t)] else None)
                (Ignite_client this) of
           (res, client') \<Rightarrow> (res, this\<lparr>Ignite_client := client'\<rparr>)))"

definition Ignite_createDeployment ::
  "(string \<Rightarrow> int) \<Rightarrow> (request \<Rightarrow> error + 'r) \<Rightarrow> configOrTeam \<Rightarrow>
   DeploymentConfig option \<Rightarrow> Ignite \<Rightarrow> (error + 'r) \<times> Ignite" where
  "Ignite_createDeployment parseSize srv configOrTeam bearerOrPatConfig this =
     (let checked =
        (case configOrTeam of
           Config c \<Rightarrow>
             if Ignite_authType this = sk then Inr (c, None)
             else Inl (Error ''First argument must be the team ID when using bearer authorization to create deployments.'')
         | Team t \<Rightarrow>
             (case bearerOrPatConfig of
                None \<Rightarrow> Inl (Error ''Second argument must be the deployment config when using bearer authorization to create deployments.'')
              | Some c \<Rightarrow>
                  if Ignite_authType this = bearer \<or> Ignite_authType this = pat then Inr (c, Some t)
                  else Inl (Error ''Only argument must be the config when using secret authorization to create deployments.'')))
      in case checked of
           Inl e \<Rightarrow> (Inl e, this)
         | Inr (config, team) \<Rightarrow>
             if parseSize (ram (resources config)) \<le> SIX_MB_IN_BYTES then
               (Inl (Error ''Allocated memory must be greater than 6MB when creating a deployment.''), this)
             else
               (case client_post srv ''/v1/ignite/deployments'' (Some (ConfigBody config))
                       (case team of
                          Some t \<Rightarrow> if t \<noteq> [] then Some [(''team'', t)] else None
                        | None \<Rightarrow> None)
                       (Ignite_client this) of
                  (res, client') \<Rightarrow> (res, this\<lparr>Ignite_client := client'\<rparr>)))"

section \<open>The Hop aggregate (unnamed part 000)\<close>

text \<open>The keys of \<^verbatim>\<open>this.sdks\<close>; each SDK instance is its API client.\<close>

datatype sdk_key = ignite | user | pipe | projects | registry | channels

record Hop =
  sdks :: "sdk_key \<Rightarrow> APIClient"
  Hop_authType :: APIAuthorizationType

text \<open>
  \<^verbatim>\<open>hop.ignite.containers.stop\<close> and \<^verbatim>\<open>hop.ignite.containers.start\<close>: arrow
  functions that call \<^verbatim>\<open>updateContainerState\<close> on \<^verbatim>\<open>this.sdks.ignite\<close>.
\<close>

definition containers_stop ::
  "(request \<Rightarrow> error + 'r) \<Rightarrow> string \<Rightarrow> Hop \<Rightarrow> (error + unit) \<times> Hop" where
  "containers_stop srv container this =
     (case updateContainerState srv container STOPPED (sdks this ignite) of
        (res, client') \<Rightarrow> (res, this\<lparr>sdks := (sdks this)(ignite := client')\<rparr>))"

definition containers_start ::
  "(request \<Rightarrow> error + 'r) \<Rightarrow> string \<Rightarrow> Hop \<Rightarrow> (error + unit) \<times> Hop" where
  "containers_start srv container this =
     (case updateContainerState srv container RUNNING (sdks this ignite) of
        (res, client') \<Rightarrow> (res, this\<lparr>sdks := (sdks this)(ignite := client')\<rparr>))"

text \<open>
  The facade entries the constructor builds with \<^verbatim>\<open>bind\<close>. An entry
  \<^verbatim>\<open>this.sdks.k.m.bind(r)\<close> is \<open>Bind k m r\<close>; the receiver \<open>r\<close> is an SDK instance
  \<^verbatim>\<open>this.sdks.k'\<close> or \<^verbatim>\<open>this.ignite\<close>, the property under construction, which is
  still \<^verbatim>\<open>undefined\<close> when the object literal is evaluated.
\<close>

datatype receiver = This_sdks sdk_key | This_ignite

datatype binding = Bind sdk_key string receiver

definition facade :: "(string \<times> binding) list" where
  "facade =
     [(''ignite.deployments.create'', Bind ignite ''createDeployment'' (This_sdks ignite)),
      (''ignite.deployments.delete'', Bind ignite ''deleteDeployment'' (This_sdks ignite)),
      (''ignite.deployments.getAll'', Bind ignite ''getAllDeployments'' (This_sdks ignite)),
      (''ignite.deployments.get'', Bind ignite ''getDeployment'' (This_sdks ignite)),
      (''ignite.deployments.getContainers'', Bind ignite ''getContainers'' (This_sdks ignite)),
      (''ignite.deployments.gateways.getAll'', Bind ignite ''getGatewaysForDeployment'' (This_sdks ignite)),
      (''ignite.deployments.gateways.create'', Bind ignite ''createGateway'' (This_sdks ignite)),
      (''ignite.gateways.get'', Bind ignite ''getGateway'' This_ignite),
      (''ignite.gateways.addDomain'', Bind ignite ''addDomainToGateway'' (This_sdks ignite)),
      (''ignite.containers.create'', Bind ignite ''createContainer'' (This_sdks ignite)),
      (''ignite.containers.delete'', Bind ignite ''deleteContainer'' (This_sdks ignite)),
      (''ignite.containers.getLogs'', Bind ignite ''getLogs'' (This_sdks ignite)),
      (''users.me.get'', Bind user ''getMe'' (This_sdks user)),
      (''users.me.pats.create'', Bind user ''createPAT'' (This_sdks user)),
      (''users.me.pats.delete'', Bind user ''deletePAT'' (This_sdks user)),
      (''users.me.pats.getAll'', Bind user ''getAllPATs'' (This_sdks user)),
      (''projects.projectTokens.delete'', Bind projects ''deleteProjectToken'' (This_sdks projects)),
      (''projects.projectTokens.get'', Bind projects ''getProjectTokens'' (This_sdks projects)),
      (''projects.projectTokens.create'', Bind projects ''createProjectToken'' (This_sdks projects)),
      (''projects.secrets.create'', Bind projects ''createSecret'' (This_sdks projects)),
      (''projects.secrets.getAll'', Bind projects ''getSecrets'' (This_sdks projects)),
      (''projects.secrets.delete'', Bind projects ''deleteSecret'' (This_sdks projects)),
      (''projects.getAllMembers'', Bind projects ''getAllMembers'' (This_sdks projects)),
      (''projects.getCurrentMember'', Bind projects ''getCurrentMember'' (This_sdks projects)),
      (''pipe.streams.getAll'', Bind pipe ''getStreams'' (This_sdks pipe)),
      (''registry.images.getAll'', Bind registry ''getImages'' (This_sdks registry)),
      (''channels.create'', Bind channels ''create'' (This_sdks ignite)),
      (''channels.tokens.create'', Bind channels ''createToken'' (This_sdks channels))]"

text \<open>An entry is bound to the instance that defines its method.\<close>

fun bound_to_owner :: "binding \<Rightarrow> bool" where
  "bound_to_owner (Bind k m r) = (r = This_sdks k)"

section \<open>Construction\<close>

text \<open>
  Modelled from the spec: \<^verbatim>\<open>APIClient.getAuthType\<close> and \<^verbatim>\<open>getIdPrefix\<close> applied to
  a credential (rest/ is not among the sources). \<^verbatim>\<open>classify(credential)\<close> inspects the
  prefix of the credential and returns the scheme tag \<^verbatim>\<open>bearer\<close>, \<^verbatim>\<open>pat\<close> or
  \<^verbatim>\<open>sk\<close>; a string with none of the three prefixes is no credential and is refused
  with the identifier error.
\<close>

definition getAuthType :: "string \<Rightarrow> error + APIAuthorizationType" where
  "getAuthType authorization =
     (if validateId authorization ''bearer'' then Inr bearer
      else if validateId authorization ''pat'' then Inr pat
      else if validateId authorization ''sk'' then Inr sk
      else Inl (InvalidIdentifier authorization ''bearer, pat or sk''))"

text \<open>
  Modelled from the spec: the constructor of \<^verbatim>\<open>APIClient\<close> (rest/client is not among
  the sources). The scheme tag is fixed once, at construction; nothing has been
  dispatched yet.
\<close>

definition APIClient_new :: "string \<Rightarrow> error + APIClient" where
  "APIClient_new authorization =
     (case getAuthType authorization of
        Inl e \<Rightarrow> Inl e
      | Inr t \<Rightarrow> Inr \<lparr>authType = t, dispatched = []\<rparr>)"

text \<open>The constructor of the stand-alone Ignite class (unnamed part 001).\<close>

definition Ignite_new :: "string \<Rightarrow> error + Ignite" where
  "Ignite_new authorization =
     (case getAuthType authorization of
        Inl e \<Rightarrow> Inl e
      | Inr t \<Rightarrow>
          (case APIClient_new authorization of
             Inl e \<Rightarrow> Inl e
           | Inr c \<Rightarrow> Inr \<lparr>Ignite_client = c, Ignite_authType = t\<rparr>))"

text \<open>
  The constructor of \<^verbatim>\<open>Hop\<close> (unnamed part 000): the tag first, then one SDK
  instance per key, each built from the same credential.
\<close>

definition Hop_new :: "string \<Rightarrow> error + Hop" where
  "Hop_new authorization =
     (case getAuthType authorization of
        Inl e \<Rightarrow> Inl e
      | Inr t \<Rightarrow>
          (case APIClient_new authorization of
             Inl e \<Rightarrow> Inl e
           | Inr c \<Rightarrow> Inr \<lparr>sdks = (\<lambda>k. c), Hop_authType = t\<rparr>))"

section \<open>Listing deployments\<close>

lemma truthy_simps [simp]:
  "truthy None = False"
  "truthy (Some s) = (s \<noteq> [])"
  by (simp_all add: truthy_def)

text \<open>
  C4. \<^verbatim>\<open>getAllDeployments\<close>, for an optional team identifier (an identifier is never
  the empty string): under bearer or pat with no team ID it raises its "required" error
  and under sk with a team ID its "not required" error, both with nothing dispatched;
  in every other case it dispatches exactly one \<^verbatim>\<open>GET /v1/ignite/deployments\<close>, whose
  parameter \<^verbatim>\<open>team\<close> is the team ID when one was supplied and absent otherwise.
\<close>

theorem getAllDeployments_policy:
  assumes "teamId \<noteq> Some []"
  shows
    "(authType client \<noteq> sk \<and> teamId = None \<longrightarrow>
        getAllDeployments srv teamId client =
          (Inl (Error ''Team ID is required for Bearer or PAT authorization''), client))
     \<and> (authType client = sk \<and> teamId \<noteq> None \<longrightarrow>
        getAllDeployments srv teamId client =
          (Inl (Error ''Team ID is not required for secret authorization''), client))
     \<and> (\<not> (authType client \<noteq> sk \<and> teamId = None) \<and> \<not> (authType client = sk \<and> teamId \<noteq> None) \<longrightarrow>
        (let req = \<lparr>httpMethod = GET, path = ''/v1/ignite/deployments'', body = None,
                     query = Some (case teamId of None \<Rightarrow> [] | Some t \<Rightarrow> [(''team'', t)])\<rparr>
         in getAllDeployments srv teamId client =
              (srv req, client\<lparr>dispatched := dispatched client @ [req]\<rparr>)))"
  using assms
  by (cases teamId)
    (auto simp: getAllDeployments_def client_get_def client_request_def Let_def)

theorem getAllDeployments_policy_witness:
  "getAllDeployments Inr None \<lparr>authType = pat, dispatched = []\<rparr> =
     (Inl (Error ''Team ID is required for Bearer or PAT authorization''),
      \<lparr>authType = pat, dispatched = []\<rparr>)
   \<and> getAllDeployments Inr (Some ''team_abc'') \<lparr>authType = sk, dispatched = []\<rparr> =
     (Inl (Error ''Team ID is not required for secret authorization''),
      \<lparr>authType = sk, dispatched = []\<rparr>)
   \<and> getAllDeployments Inr (Some ''team_abc'') \<lparr>authType = bearer, dispatched = []\<rparr> =
     (Inr \<lparr>httpMethod = GET, path = ''/v1/ignite/deployments'', body = None,
            query = Some [(''team'', ''team_abc'')]\<rparr>,
      \<lparr>authType = bearer, dispatched =
         [\<lparr>httpMethod = GET, path = ''/v1/ignite/deployments'', body = None,
            query = Some [(''team'', ''team_abc'')]\<rparr>]\<rparr>)
   \<and> getAllDeployments Inr None \<lparr>authType = sk, dispatched = []\<rparr> =
     (Inr \<lparr>httpMethod = GET, path = ''/v1/ignite/deployments'', body = None, query = Some []\<rparr>,
      \<lparr>authType = sk, dispatched =
         [\<lparr>httpMethod = GET, path = ''/v1/ignite/deployments'', body = None, query = Some []\<rparr>]\<rparr>)"
  using getAllDeployments_policy [of None "\<lparr>authType = pat, dispatched = []\<rparr>" Inr]
    getAllDeployments_policy [of "Some ''team_abc''" "\<lparr>authType = sk, dispatched = []\<rparr>" Inr]
    getAllDeployments_policy [of "Some ''team_abc''" "\<lparr>authType = bearer, dispatched = []\<rparr>" Inr]
    getAllDeployments_policy [of None "\<lparr>authType = sk, dispatched = []\<rparr>" Inr]
  by (simp add: Let_def)

section \<open>Looking a deployment up by name or by ID\<close>

lemma validateId_nonempty: "validateId s k \<Longrightarrow> s \<noteq> []"
  by (auto simp: validateId_def)

text \<open>
  C1, as amended. For every non-empty string \<open>s\<close> that \<^verbatim>\<open>getDeployment\<close> is given
  to look up (the single argument under sk, the second argument after a team ID under
  bearer or pat) it dispatches the get-by-ID request
  \<^verbatim>\<open>GET /v1/ignite/deployments/:deployment_id\<close> with \<^verbatim>\<open>deployment_id = s\<close> exactly when
  \<^verbatim>\<open>validateId(s, 'deployment')\<close> holds, and the search request
  \<^verbatim>\<open>GET /v1/ignite/deployments/search\<close> with \<^verbatim>\<open>name = s\<close> otherwise. In every call
  that dispatches at all, the string looked up is non-empty and the request is chosen
  this way, so a string with the deployment prefix is never sent down the search path.
  The empty string is never looked up: an empty first argument raises under every
  scheme, and an empty second argument raises under bearer and pat.
\<close>

theorem getDeployment_dual_mode:
  "(authType client = sk \<and> s \<noteq> [] \<longrightarrow>
      (let req = (if validateId s ''deployment'' then
                    \<lparr>httpMethod = GET, path = ''/v1/ignite/deployments/:deployment_id'', body = None,
                     query = Some [(''deployment_id'', s)]\<rparr>
                  else
                    \<lparr>httpMethod = GET, path = ''/v1/ignite/deployments/search'', body = None,
                     query = Some [(''name'', s)]\<rparr>)
       in getDeployment srv s None client =
            (srv req, client\<lparr>dispatched := dispatched client @ [req]\<rparr>)))
   \<and> (authType client \<noteq> sk \<and> validateId t ''team'' \<and> s \<noteq> [] \<longrightarrow>
      (let req = (if validateId s ''deployment'' then
                    \<lparr>httpMethod = GET, path = ''/v1/ignite/deployments/:deployment_id'', body = None,
                     query = Some [(''team'', t), (''deployment_id'', s)]\<rparr>
                  else
                    \<lparr>httpMethod = GET, path = ''/v1/ignite/deployments/search'', body = None,
                     query = Some [(''name'', s)]\<rparr>)
       in getDeployment srv t (Some s) client =
            (srv req, client\<lparr>dispatched := dispatched client @ [req]\<rparr>)))
   \<and> (dispatched (snd (getDeployment srv a b client)) \<noteq> dispatched client \<longrightarrow>
      (let s' = (case b of Some n \<Rightarrow> if n \<noteq> [] then n else a | None \<Rightarrow> a);
           req = (if validateId s' ''deployment'' then
                    \<lparr>httpMethod = GET, path = ''/v1/ignite/deployments/:deployment_id'', body = None,
                     query = Some ((if truthy b then [(''team'', a)] else [])
                                    @ [(''deployment_id'', s')])\<rparr>
                  else
                    \<lparr>httpMethod = GET, path = ''/v1/ignite/deployments/search'', body = None,
                     query = Some [(''name'', s')]\<rparr>)
       in s' \<noteq> [] \<and>
          getDeployment srv a b client =
            (srv req, client\<lparr>dispatched := dispatched client @ [req]\<rparr>)))
   \<and> getDeployment srv [] b client =
        (Inl (Error ''Team ID is required for bearer or PAT authorization''), client)
   \<and> (authType client \<noteq> sk \<longrightarrow>
        getDeployment srv a (Some []) client =
          (Inl (Error ''Team ID is required for bearer or PAT authorization''), client))"
proof (intro conjI impI)
  assume "authType client = sk \<and> s \<noteq> []"
  then show "let req = (if validateId s ''deployment'' then
                    \<lparr>httpMethod = GET, path = ''/v1/ignite/deployments/:deployment_id'', body = None,
                     query = Some [(''deployment_id'', s)]\<rparr>
                  else
                    \<lparr>httpMethod = GET, path = ''/v1/ignite/deployments/search'', body = None,
                     query = Some [(''name'', s)]\<rparr>)
       in getDeployment srv s None client =
            (srv req, client\<lparr>dispatched := dispatched client @ [req]\<rparr>)"
    by (simp add: getDeployment_def client_get_def client_request_def Let_def)
next
  assume "authType client \<noteq> sk \<and> validateId t ''team'' \<and> s \<noteq> []"
  then show "let req = (if validateId s ''deployment'' then
                    \<lparr>httpMethod = GET, path = ''/v1/ignite/deployments/:deployment_id'', body = None,
                     query = Some [(''team'', t), (''deployment_id'', s)]\<rparr>
                  else
                    \<lparr>httpMethod = GET, path = ''/v1/ignite/deployments/search'', body = None,
                     query = Some [(''name'', s)]\<rparr>)
       in getDeployment srv t (Some s) client =
            (srv req, client\<lparr>dispatched := dispatched client @ [req]\<rparr>)"
    using validateId_nonempty [of t "''team''"]
    by (simp add: getDeployment_def assertId_def client_get_def client_request_def Let_def)
next
  assume "dispatched (snd (getDeployment srv a b client)) \<noteq> dispatched client"
  then show "let s' = (case b of Some n \<Rightarrow> if n \<noteq> [] then n else a | None \<Rightarrow> a);
           req = (if validateId s' ''deployment'' then
                    \<lparr>httpMethod = GET, path = ''/v1/ignite/deployments/:deployment_id'', body = None,
                     query = Some ((if truthy b then [(''team'', a)] else [])
                                    @ [(''deployment_id'', s')])\<rparr>
                  else
                    \<lparr>httpMethod = GET, path = ''/v1/ignite/deployments/search'', body = None,
                     query = Some [(''name'', s')]\<rparr>)
       in s' \<noteq> [] \<and>
          getDeployment srv a b client =
            (srv req, client\<lparr>dispatched := dispatched client @ [req]\<rparr>)"
    by (cases b)
      (auto simp: getDeployment_def assertId_def client_get_def client_request_def Let_def
            split: if_splits)
next
  show "getDeployment srv [] b client =
        (Inl (Error ''Team ID is required for bearer or PAT authorization''), client)"
    by (simp add: getDeployment_def Let_def)
next
  assume "authType client \<noteq> sk"
  then show "getDeployment srv a (Some []) client =
          (Inl (Error ''Team ID is required for bearer or PAT authorization''), client)"
    by (simp add: getDeployment_def Let_def)
qed

theorem getDeployment_dual_mode_witness:
  "getDeployment Inr ''team_abc'' (Some ''deployment_abc123'') \<lparr>authType = bearer, dispatched = []\<rparr> =
     (Inr \<lparr>httpMethod = GET, path = ''/v1/ignite/deployments/:deployment_id'', body = None,
            query = Some [(''team'', ''team_abc''), (''deployment_id'', ''deployment_abc123'')]\<rparr>,
      \<lparr>authType = bearer, dispatched =
         [\<lparr>httpMethod = GET, path = ''/v1/ignite/deployments/:deployment_id'', body = None,
            query = Some [(''team'', ''team_abc''), (''deployment_id'', ''deployment_abc123'')]\<rparr>]\<rparr>)
   \<and> getDeployment Inr ''team_abc'' (Some ''my-app-name'') \<lparr>authType = bearer, dispatched = []\<rparr> =
     (Inr \<lparr>httpMethod = GET, path = ''/v1/ignite/deployments/search'', body = None,
            query = Some [(''name'', ''my-app-name'')]\<rparr>,
      \<lparr>authType = bearer, dispatched =
         [\<lparr>httpMethod = GET, path = ''/v1/ignite/deployments/search'', body = None,
            query = Some [(''name'', ''my-app-name'')]\<rparr>]\<rparr>)
   \<and> getDeployment Inr ''deployment_abc123'' None \<lparr>authType = sk, dispatched = []\<rparr> =
     (Inr \<lparr>httpMethod = GET, path = ''/v1/ignite/deployments/:deployment_id'', body = None,
            query = Some [(''deployment_id'', ''deployment_abc123'')]\<rparr>,
      \<lparr>authType = sk, dispatched =
         [\<lparr>httpMethod = GET, path = ''/v1/ignite/deployments/:deployment_id'', body = None,
            query = Some [(''deployment_id'', ''deployment_abc123'')]\<rparr>]\<rparr>)
   \<and> getDeployment Inr ''my-app-name'' None \<lparr>authType = sk, dispatched = []\<rparr> =
     (Inr \<lparr>httpMethod = GET, path = ''/v1/ignite/deployments/search'', body = None,
            query = Some [(''name'', ''my-app-name'')]\<rparr>,
      \<lparr>authType = sk, dispatched =
         [\<lparr>httpMethod = GET, path = ''/v1/ignite/deployments/search'', body = None,
            query = Some [(''name'', ''my-app-name'')]\<rparr>]\<rparr>)"
proof -
  have bearer_id:
    "getDeployment Inr ''team_abc'' (Some ''deployment_abc123'') \<lparr>authType = bearer, dispatched = []\<rparr> =
     (Inr \<lparr>httpMethod = GET, path = ''/v1/ignite/deployments/:deployment_id'', body = None,
            query = Some [(''team'', ''team_abc''), (''deployment_id'', ''deployment_abc123'')]\<rparr>,
      \<lparr>authType = bearer, dispatched =
         [\<lparr>httpMethod = GET, path = ''/v1/ignite/deployments/:deployment_id'', body = None,
            query = Some [(''team'', ''team_abc''), (''deployment_id'', ''deployment_abc123'')]\<rparr>]\<rparr>)"
    using getDeployment_dual_mode [where srv = Inr and t = "''team_abc''"
        and s = "''deployment_abc123''" and client = "\<lparr>authType = bearer, dispatched = []\<rparr>"
        and a = "[]" and b = None, THEN conjunct2, THEN conjunct1]
    by (simp add: validateId_def Let_def)
  have bearer_name:
    "getDeployment Inr ''team_abc'' (Some ''my-app-name'') \<lparr>authType = bearer, dispatched = []\<rparr> =
     (Inr \<lparr>httpMethod = GET, path = ''/v1/ignite/deployments/search'', body = None,
            query = Some [(''name'', ''my-app-name'')]\<rparr>,
      \<lparr>authType = bearer, dispatched =
         [\<lparr>httpMethod = GET, path = ''/v1/ignite/deployments/search'', body = None,
            query = Some [(''name'', ''my-app-name'')]\<rparr>]\<rparr>)"
    using getDeployment_dual_mode [where srv = Inr and t = "''team_abc''"
        and s = "''my-app-name''" and client = "\<lparr>authType = bearer, dispatched = []\<rparr>"
        and a = "[]" and b = None, THEN conjunct2, THEN conjunct1]
    by (simp add: validateId_def Let_def)
  have sk_id:
    "getDeployment Inr ''deployment_abc123'' None \<lparr>authType = sk, dispatched = []\<rparr> =
     (Inr \<lparr>httpMethod = GET, path = ''/v1/ignite/deployments/:deployment_id'', body = None,
            query = Some [(''deployment_id'', ''deployment_abc123'')]\<rparr>,
      \<lparr>authType = sk, dispatched =
         [\<lparr>httpMethod = GET, path = ''/v1/ignite/deployments/:deployment_id'', body = None,
            query = Some [(''deployment_id'', ''deployment_abc123'')]\<rparr>]\<rparr>)"
    using getDeployment_dual_mode [where srv = Inr and t = "[]"
        and s = "''deployment_abc123''" and client = "\<lparr>authType = sk, dispatched = []\<rparr>"
        and a = "[]" and b = None, THEN conjunct1]
    by (simp add: validateId_def Let_def)
  have sk_name:
    "getDeployment Inr ''my-app-name'' None \<lparr>authType = sk, dispatched = []\<rparr> =
     (Inr \<lparr>httpMethod = GET, path = ''/v1/ignite/deployments/search'', body = None,
            query = Some [(''name'', ''my-app-name'')]\<rparr>,
      \<lparr>authType = sk, dispatched =
         [\<lparr>httpMethod = GET, path = ''/v1/ignite/deployments/search'', body = None,
            query = Some [(''name'', ''my-app-name'')]\<rparr>]\<rparr>)"
    using getDeployment_dual_mode [where srv = Inr and t = "[]"
        and s = "''my-app-name''" and client = "\<lparr>authType = sk, dispatched = []\<rparr>"
        and a = "[]" and b = None, THEN conjunct1]
    by (simp add: validateId_def Let_def)
  show ?thesis
    using bearer_id bearer_name sk_id sk_name by (intro conjI)
qed

text \<open>
  The claim as first stated, for every string, fails at the empty string. It does not
  carry the deployment prefix, so the claim has the search request with an empty name
  dispatched; the code raises instead and dispatches nothing, whether the empty string
  is the only argument (under sk) or follows a team ID (under bearer).
\<close>

theorem getDeployment_dual_mode_counterexample:
  "\<not> validateId [] ''deployment''
   \<and> getDeployment Inr [] None \<lparr>authType = sk, dispatched = []\<rparr> =
     (Inl (Error ''Team ID is required for bearer or PAT authorization''),
      \<lparr>authType = sk, dispatched = []\<rparr>)
   \<and> getDeployment Inr ''team_abc'' (Some []) \<lparr>authType = bearer, dispatched = []\<rparr> =
     (Inl (Error ''Team ID is required for bearer or PAT authorization''),
      \<lparr>authType = bearer, dispatched = []\<rparr>)"
  by (simp add: getDeployment_def validateId_def Let_def)




section \<open>Creating a deployment\<close>

text \<open>
  C2. Both versions of \<^verbatim>\<open>createDeployment\<close> (sdks/ignite.ts and the stand-alone
  class) raise, with nothing dispatched, whenever the parsed RAM of the config is at
  most \<open>6 * 1024 * 1024\<close> bytes, whatever the scheme and the argument shape; with the
  shape that matches the scheme the error is the one of the memory check. With a parsed
  RAM above that and the matching shape, the call passes the check and dispatches
  \<^verbatim>\<open>POST /v1/ignite/deployments\<close> with the config as its body.
\<close>

theorem createDeployment_ram_floor:
  "(parseSize (ram (resources config)) \<le> 6 * 1024 * 1024 \<longrightarrow>
      (\<exists>e. createDeployment parseSize srv (Config config) None client = (Inl e, client))
      \<and> (\<exists>e. createDeployment parseSize srv (Team t) (Some config) client = (Inl e, client))
      \<and> (authType client = sk \<longrightarrow>
           createDeployment parseSize srv (Config config) None client =
             (Inl (Error ''Allocated memory must be greater than 6MB when creating a deployment.''), client))
      \<and> (authType client \<noteq> sk \<longrightarrow>
           createDeployment parseSize srv (Team t) (Some config) client =
             (Inl (Error ''Allocated memory must be greater than 6MB when creating a deployment.''), client))
      \<and> (\<exists>e. Ignite_createDeployment parseSize srv (Config config) None this = (Inl e, this))
      \<and> (\<exists>e. Ignite_createDeployment parseSize srv (Team t) (Some config) this = (Inl e, this))
      \<and> (Ignite_authType this = sk \<longrightarrow>
           Ignite_createDeployment parseSize srv (Config config) None this =
             (Inl (Error ''Allocated memory must be greater than 6MB when creating a deployment.''), this))
      \<and> (Ignite_authType this \<noteq> sk \<longrightarrow>
           Ignite_createDeployment parseSize srv (Team t) (Some config) this =
             (Inl (Error ''Allocated memory must be greater than 6MB when creating a deployment.''), this)))
   \<and> (6 * 1024 * 1024 < parseSize (ram (resources config)) \<longrightarrow>
      (authType client = sk \<longrightarrow>
         (let req = \<lparr>httpMethod = POST, path = ''/v1/ignite/deployments'',
                      body = Some (ConfigBody config), query = Some []\<rparr>
          in createDeployment parseSize srv (Config config) None client =
               (srv req, client\<lparr>dispatched := dispatched client @ [req]\<rparr>)))
      \<and> (authType client \<noteq> sk \<longrightarrow>
         (let req = \<lparr>httpMethod = POST, path = ''/v1/ignite/deployments'',
                      body = Some (ConfigBody config),
                      query = Some (if t \<noteq> [] then [(''team'', t)] else [])\<rparr>
          in createDeployment parseSize srv (Team t) (Some config) client =
               (srv req, client\<lparr>dispatched := dispatched client @ [req]\<rparr>)))
      \<and> (Ignite_authType this = sk \<longrightarrow>
         (let req = \<lparr>httpMethod = POST, path = ''/v1/ignite/deployments'',
                      body = Some (ConfigBody config), query = None\<rparr>
          in Ignite_createDeployment parseSize srv (Config config) None this =
               (srv req, this\<lparr>Ignite_client :=
                  (Ignite_client this)\<lparr>dispatched := dispatched (Ignite_client this) @ [req]\<rparr>\<rparr>)))
      \<and> (Ignite_authType this \<noteq> sk \<longrightarrow>
         (let req = \<lparr>httpMethod = POST, path = ''/v1/ignite/deployments'',
                      body = Some (ConfigBody config),
                      query = (if t \<noteq> [] then Some [(''team'', t)] else None)\<rparr>
          in Ignite_createDeployment parseSize srv (Team t) (Some config) this =
               (srv req, this\<lparr>Ignite_client :=
                  (Ignite_client this)\<lparr>dispatched := dispatched (Ignite_client this) @ [req]\<rparr>\<rparr>))))"
proof -
  have nsk: "\<And>x. x \<noteq> sk \<Longrightarrow> x = bearer \<or> x = pat"
    by (case_tac x) simp_all
  show ?thesis
    using nsk [of "authType client"] nsk [of "Ignite_authType this"]
    by (auto simp: createDeployment_def Ignite_createDeployment_def SIX_MB_IN_BYTES_def
          client_post_def client_request_def Let_def)
qed

theorem createDeployment_ram_floor_witness:
  "createDeployment (\<lambda>_. 6 * 1024 * 1024) Inr (Config \<lparr>resources = \<lparr>ram = ''6mb''\<rparr>\<rparr>) None
       \<lparr>authType = sk, dispatched = []\<rparr> =
     (Inl (Error ''Allocated memory must be greater than 6MB when creating a deployment.''),
      \<lparr>authType = sk, dispatched = []\<rparr>)
   \<and> createDeployment (\<lambda>_. 6 * 1024 * 1024 + 1) Inr (Config \<lparr>resources = \<lparr>ram = ''6291457b''\<rparr>\<rparr>) None
       \<lparr>authType = sk, dispatched = []\<rparr> =
     (Inr \<lparr>httpMethod = POST, path = ''/v1/ignite/deployments'',
            body = Some (ConfigBody \<lparr>resources = \<lparr>ram = ''6291457b''\<rparr>\<rparr>), query = Some []\<rparr>,
      \<lparr>authType = sk, dispatched =
         [\<lparr>httpMethod = POST, path = ''/v1/ignite/deployments'',
            body = Some (ConfigBody \<lparr>resources = \<lparr>ram = ''6291457b''\<rparr>\<rparr>), query = Some []\<rparr>]\<rparr>)
   \<and> Ignite_createDeployment (\<lambda>_. 6 * 1024 * 1024) Inr (Team ''team_abc'')
       (Some \<lparr>resources = \<lparr>ram = ''6mb''\<rparr>\<rparr>)
       \<lparr>Ignite_client = \<lparr>authType = pat, dispatched = []\<rparr>, Ignite_authType = pat\<rparr> =
     (Inl (Error ''Allocated memory must be greater than 6MB when creating a deployment.''),
      \<lparr>Ignite_client = \<lparr>authType = pat, dispatched = []\<rparr>, Ignite_authType = pat\<rparr>)"
  using
    createDeployment_ram_floor [of "\<lambda>_. 6 * 1024 * 1024" "\<lparr>resources = \<lparr>ram = ''6mb''\<rparr>\<rparr>" Inr
      "\<lparr>authType = sk, dispatched = []\<rparr>" "''team_abc''"
      "\<lparr>Ignite_client = \<lparr>authType = pat, dispatched = []\<rparr>, Ignite_authType = pat\<rparr>"]
    createDeployment_ram_floor [of "\<lambda>_. 6 * 1024 * 1024 + 1" "\<lparr>resources = \<lparr>ram = ''6291457b''\<rparr>\<rparr>" Inr
      "\<lparr>authType = sk, dispatched = []\<rparr>" "''team_abc''"
      "\<lparr>Ignite_client = \<lparr>authType = pat, dispatched = []\<rparr>, Ignite_authType = pat\<rparr>"]
  by (simp add: Let_def)

text \<open>
  C3. \<^verbatim>\<open>createDeployment\<close> raises with nothing dispatched when the argument shape
  disagrees with the scheme: under sk a team ID as first argument raises, with or
  without a config after it; under bearer or pat a config as first argument raises. A
  call that dispatches has the matching shape: a team ID and a config under bearer or
  pat, a config as first argument under sk.
\<close>

theorem createDeployment_shape_policy:
  "(authType client = sk \<longrightarrow>
      createDeployment parseSize srv (Team t) None client =
        (Inl (Error ''Second argument must be the deployment config when using bearer authorization to create deployments.''), client)
      \<and> createDeployment parseSize srv (Team t) (Some config) client =
        (Inl (Error ''Only argument must be the config when using secret authorization to create deployments.''), client))
   \<and> (authType client \<noteq> sk \<longrightarrow>
      createDeployment parseSize srv (Config config) bearerOrPatConfig client =
        (Inl (Error ''First argument must be the team ID when using bearer authorization to create deployments.''), client))
   \<and> (dispatched (snd (createDeployment parseSize srv configOrTeam bearerOrPatConfig client))
         \<noteq> dispatched client \<longrightarrow>
      (authType client \<noteq> sk \<and> (\<exists>t' c. configOrTeam = Team t' \<and> bearerOrPatConfig = Some c))
      \<or> (authType client = sk \<and> (\<exists>c. configOrTeam = Config c)))"
  by (auto simp: createDeployment_def Let_def split: configOrTeam.splits option.splits if_splits)

theorem createDeployment_shape_policy_witness:
  "createDeployment (\<lambda>_. 6 * 1024 * 1024 + 1) Inr (Team ''team_abc'')
       (Some \<lparr>resources = \<lparr>ram = ''8mb''\<rparr>\<rparr>) \<lparr>authType = sk, dispatched = []\<rparr> =
     (Inl (Error ''Only argument must be the config when using secret authorization to create deployments.''),
      \<lparr>authType = sk, dispatched = []\<rparr>)
   \<and> createDeployment (\<lambda>_. 6 * 1024 * 1024 + 1) Inr (Team ''team_abc'') None
       \<lparr>authType = sk, dispatched = []\<rparr> =
     (Inl (Error ''Second argument must be the deployment config when using bearer authorization to create deployments.''),
      \<lparr>authType = sk, dispatched = []\<rparr>)
   \<and> createDeployment (\<lambda>_. 6 * 1024 * 1024 + 1) Inr (Config \<lparr>resources = \<lparr>ram = ''8mb''\<rparr>\<rparr>) None
       \<lparr>authType = bearer, dispatched = []\<rparr> =
     (Inl (Error ''First argument must be the team ID when using bearer authorization to create deployments.''),
      \<lparr>authType = bearer, dispatched = []\<rparr>)
   \<and> dispatched (snd (createDeployment (\<lambda>_. 6 * 1024 * 1024 + 1) Inr
         (Config \<lparr>resources = \<lparr>ram = ''8mb''\<rparr>\<rparr>) None \<lparr>authType = sk, dispatched = []\<rparr>))
       \<noteq> dispatched \<lparr>authType = sk, dispatched = []\<rparr>"
  using
    createDeployment_shape_policy [of "\<lparr>authType = sk, dispatched = []\<rparr>"
      "\<lambda>_. 6 * 1024 * 1024 + 1" Inr "''team_abc''" "\<lparr>resources = \<lparr>ram = ''8mb''\<rparr>\<rparr>" None
      "Config \<lparr>resources = \<lparr>ram = ''8mb''\<rparr>\<rparr>"]
    createDeployment_shape_policy [of "\<lparr>authType = bearer, dispatched = []\<rparr>"
      "\<lambda>_. 6 * 1024 * 1024 + 1" Inr "''team_abc''" "\<lparr>resources = \<lparr>ram = ''8mb''\<rparr>\<rparr>" None
      "Team ''team_abc''"]
  by (simp add: createDeployment_def SIX_MB_IN_BYTES_def client_post_def client_request_def
        Let_def)

text \<open>
  C10, as amended. \<^verbatim>\<open>createDeployment\<close> never inspects the prefix of its team ID:
  under bearer or pat, for every non-empty string \<open>t\<close>, with the team prefix or without,
  and every config whose parsed RAM exceeds 6 MiB, it dispatches
  \<^verbatim>\<open>POST /v1/ignite/deployments\<close> with the parameters \<^verbatim>\<open>{team: t}\<close> and raises no
  identifier error; \<^verbatim>\<open>getDeployment\<close>, given a first argument without the team
  prefix, raises the identifier error of \<^verbatim>\<open>assertId\<close> with nothing dispatched.
\<close>

theorem createDeployment_team_unchecked:
  "(authType client \<noteq> sk \<and> t \<noteq> [] \<and> 6 * 1024 * 1024 < parseSize (ram (resources config)) \<longrightarrow>
      (let req = \<lparr>httpMethod = POST, path = ''/v1/ignite/deployments'',
                   body = Some (ConfigBody config), query = Some [(''team'', t)]\<rparr>
       in createDeployment parseSize srv (Team t) (Some config) client =
            (srv req, client\<lparr>dispatched := dispatched client @ [req]\<rparr>)))
   \<and> (authType client \<noteq> sk \<and> t \<noteq> [] \<and> \<not> validateId t ''team'' \<and> n \<noteq> [] \<longrightarrow>
      getDeployment srv t (Some n) client = (Inl (InvalidIdentifier t ''team''), client))"
proof -
  have nsk: "authType client \<noteq> sk \<Longrightarrow> authType client = bearer \<or> authType client = pat"
    by (cases "authType client") simp_all
  show ?thesis
    using nsk
    by (auto simp: createDeployment_def getDeployment_def assertId_def SIX_MB_IN_BYTES_def
          client_post_def client_request_def Let_def)
qed

theorem createDeployment_team_unchecked_witness:
  "createDeployment (\<lambda>_. 8 * 1024 * 1024) Inr (Team ''my-team'')
       (Some \<lparr>resources = \<lparr>ram = ''8mb''\<rparr>\<rparr>) \<lparr>authType = bearer, dispatched = []\<rparr> =
     (Inr \<lparr>httpMethod = POST, path = ''/v1/ignite/deployments'',
            body = Some (ConfigBody \<lparr>resources = \<lparr>ram = ''8mb''\<rparr>\<rparr>),
            query = Some [(''team'', ''my-team'')]\<rparr>,
      \<lparr>authType = bearer, dispatched =
         [\<lparr>httpMethod = POST, path = ''/v1/ignite/deployments'',
            body = Some (ConfigBody \<lparr>resources = \<lparr>ram = ''8mb''\<rparr>\<rparr>),
            query = Some [(''team'', ''my-team'')]\<rparr>]\<rparr>)
   \<and> getDeployment Inr ''my-team'' (Some ''my-app'') \<lparr>authType = bearer, dispatched = []\<rparr> =
     (Inl (InvalidIdentifier ''my-team'' ''team''), \<lparr>authType = bearer, dispatched = []\<rparr>)"
  using
    createDeployment_team_unchecked [of "\<lparr>authType = bearer, dispatched = []\<rparr>" "''my-team''"
      "\<lambda>_. 8 * 1024 * 1024" "\<lparr>resources = \<lparr>ram = ''8mb''\<rparr>\<rparr>" Inr "''my-app''"]
  by (simp add: validateId_def Let_def)

text \<open>
  The claim as first stated fails at the empty string: the call dispatches, but the
  test \<^verbatim>\<open>team ? {team} : {}\<close> takes the empty team for absent and sends no
  \<^verbatim>\<open>team\<close> parameter.
\<close>

theorem createDeployment_team_unchecked_counterexample:
  "createDeployment (\<lambda>_. 8 * 1024 * 1024) Inr (Team [])
       (Some \<lparr>resources = \<lparr>ram = ''8mb''\<rparr>\<rparr>) \<lparr>authType = bearer, dispatched = []\<rparr> =
     (Inr \<lparr>httpMethod = POST, path = ''/v1/ignite/deployments'',
            body = Some (ConfigBody \<lparr>resources = \<lparr>ram = ''8mb''\<rparr>\<rparr>), query = Some []\<rparr>,
      \<lparr>authType = bearer, dispatched =
         [\<lparr>httpMethod = POST, path = ''/v1/ignite/deployments'',
            body = Some (ConfigBody \<lparr>resources = \<lparr>ram = ''8mb''\<rparr>\<rparr>), query = Some []\<rparr>]\<rparr>)
   \<and> map query (dispatched (snd (createDeployment (\<lambda>_. 8 * 1024 * 1024) Inr (Team [])
         (Some \<lparr>resources = \<lparr>ram = ''8mb''\<rparr>\<rparr>) \<lparr>authType = bearer, dispatched = []\<rparr>)))
       \<noteq> [Some [(''team'', [])]]"
  by (simp add: createDeployment_def SIX_MB_IN_BYTES_def client_post_def client_request_def
        Let_def)

section \<open>Container lifecycle\<close>

text \<open>
  C6. For every container ID \<open>c\<close> and every state of the aggregate,
  \<^verbatim>\<open>hop.ignite.containers.stop(c)\<close> hands the network exactly one request,
  \<^verbatim>\<open>PATCH /v1/ignite/containers/:container_id/state\<close> with \<^verbatim>\<open>container_id = c\<close> and
  the body \<^verbatim>\<open>{state: STOPPED}\<close>, and \<^verbatim>\<open>start(c)\<close> exactly one such request with the
  body \<^verbatim>\<open>{state: RUNNING}\<close>. The request does not depend on the aggregate, and the
  aggregate afterwards differs only by that request in the log of the ignite client:
  no container state is read or kept. The call returns nothing on success and raises
  the error of the request otherwise.
\<close>

theorem containers_stop_start:
  "containers_stop srv c this =
     ((case srv \<lparr>httpMethod = PATCH, path = ''/v1/ignite/containers/:container_id/state'',
                  body = Some (StateBody STOPPED), query = Some [(''container_id'', c)]\<rparr> of
         Inl e \<Rightarrow> Inl e | Inr r \<Rightarrow> Inr ()),
      this\<lparr>sdks := (sdks this)(ignite := (sdks this ignite)\<lparr>dispatched :=
        dispatched (sdks this ignite) @
          [\<lparr>httpMethod = PATCH, path = ''/v1/ignite/containers/:container_id/state'',
            body = Some (StateBody STOPPED), query = Some [(''container_id'', c)]\<rparr>]\<rparr>)\<rparr>)
   \<and> containers_start srv c this =
     ((case srv \<lparr>httpMethod = PATCH, path = ''/v1/ignite/containers/:container_id/state'',
                  body = Some (StateBody RUNNING), query = Some [(''container_id'', c)]\<rparr> of
         Inl e \<Rightarrow> Inl e | Inr r \<Rightarrow> Inr ()),
      this\<lparr>sdks := (sdks this)(ignite := (sdks this ignite)\<lparr>dispatched :=
        dispatched (sdks this ignite) @
          [\<lparr>httpMethod = PATCH, path = ''/v1/ignite/containers/:container_id/state'',
            body = Some (StateBody RUNNING), query = Some [(''container_id'', c)]\<rparr>]\<rparr>)\<rparr>)"
  by (simp add: containers_stop_def containers_start_def updateContainerState_def
        client_patch_def client_request_def Let_def split: sum.splits)

theorem containers_stop_start_witness:
  "dispatched (sdks (snd (containers_stop Inr ''container_abc''
       \<lparr>sdks = (\<lambda>k. \<lparr>authType = sk, dispatched = []\<rparr>), Hop_authType = sk\<rparr>)) ignite) =
     [\<lparr>httpMethod = PATCH, path = ''/v1/ignite/containers/:container_id/state'',
       body = Some (StateBody STOPPED), query = Some [(''container_id'', ''container_abc'')]\<rparr>]
   \<and> fst (containers_stop Inr ''container_abc''
       \<lparr>sdks = (\<lambda>k. \<lparr>authType = sk, dispatched = []\<rparr>), Hop_authType = sk\<rparr>) = Inr ()
   \<and> dispatched (sdks (snd (containers_start Inr ''container_abc''
       \<lparr>sdks = (\<lambda>k. \<lparr>authType = sk, dispatched = []\<rparr>), Hop_authType = sk\<rparr>)) ignite) =
     [\<lparr>httpMethod = PATCH, path = ''/v1/ignite/containers/:container_id/state'',
       body = Some (StateBody RUNNING), query = Some [(''container_id'', ''container_abc'')]\<rparr>]
   \<and> fst (containers_start (\<lambda>_. Inl NetworkError :: error + unit) ''container_abc''
       \<lparr>sdks = (\<lambda>k. \<lparr>authType = sk, dispatched = []\<rparr>), Hop_authType = sk\<rparr>) = Inl NetworkError"
  using
    containers_stop_start [of Inr "''container_abc''"
      "\<lparr>sdks = (\<lambda>k. \<lparr>authType = sk, dispatched = []\<rparr>), Hop_authType = sk\<rparr>"]
    containers_stop_start [of "\<lambda>_. Inl NetworkError :: error + unit" "''container_abc''"
      "\<lparr>sdks = (\<lambda>k. \<lparr>authType = sk, dispatched = []\<rparr>), Hop_authType = sk\<rparr>"]
  by simp

section \<open>The scheme tag of a client\<close>

lemma client_request_authType:
  "authType (snd (client_request srv m p b q client)) = authType client"
  by (simp add: client_request_def Let_def)

lemma getAllDeployments_authType:
  "authType (snd (getAllDeployments srv teamId client)) = authType client"
  by (simp add: getAllDeployments_def client_get_def client_request_authType)

lemma getDeployment_authType:
  "authType (snd (getDeployment srv a b client)) = authType client"
  by (simp add: getDeployment_def client_get_def client_request_authType Let_def
        split: sum.splits)

lemma createDeployment_authType:
  "authType (snd (createDeployment parseSize srv configOrTeam cfg client)) = authType client"
  by (simp add: createDeployment_def client_post_def client_request_authType Let_def
        split: sum.splits configOrTeam.splits option.splits)

lemma updateContainerState_authType:
  "authType (snd (updateContainerState srv c st client)) = authType client"
  by (simp add: updateContainerState_def client_patch_def client_request_def Let_def
        split: sum.splits)

lemma getDeployments_authType:
  "Ignite_authType (snd (getDeployments srv teamId this)) = Ignite_authType this"
  by (simp add: getDeployments_def split: prod.splits)

lemma Ignite_createDeployment_authType:
  "Ignite_authType (snd (Ignite_createDeployment parseSize srv configOrTeam cfg this)) =
     Ignite_authType this"
  by (simp add: Ignite_createDeployment_def Let_def
        split: sum.splits configOrTeam.splits option.splits prod.splits)

lemma containers_stop_authType:
  "Hop_authType (snd (containers_stop srv c hop)) = Hop_authType hop"
  "authType (sdks (snd (containers_stop srv c hop)) k) = authType (sdks hop k)"
  using updateContainerState_authType [of srv c STOPPED "sdks hop ignite"]
  by (auto simp: containers_stop_def split: prod.splits)

lemma containers_start_authType:
  "Hop_authType (snd (containers_start srv c hop)) = Hop_authType hop"
  "authType (sdks (snd (containers_start srv c hop)) k) = authType (sdks hop k)"
  using updateContainerState_authType [of srv c RUNNING "sdks hop ignite"]
  by (auto simp: containers_start_def split: prod.splits)

text \<open>
  C7. A credential with the prefix \<^verbatim>\<open>bearer_\<close>, \<^verbatim>\<open>pat_\<close> or \<^verbatim>\<open>sk_\<close> is classified
  with the tag of its prefix. Construction computes the tag from the credential: the
  aggregate, each of its SDK clients and the stand-alone Ignite instance hold exactly
  the tag of the credential they were built from. No operation changes it: after
  every operation of the Ignite SDK, of the stand-alone class and of the container
  facade the tag is what it was before.
\<close>

theorem authType_fixed_at_construction:
  "getAuthType (''bearer_'' @ x) = Inr bearer
   \<and> getAuthType (''pat_'' @ x) = Inr pat
   \<and> getAuthType (''sk_'' @ x) = Inr sk
   \<and> (getAuthType authorization = Inr tag \<longrightarrow>
        (\<exists>c. APIClient_new authorization = Inr c \<and> authType c = tag)
        \<and> (\<exists>ig. Ignite_new authorization = Inr ig \<and> Ignite_authType ig = tag)
        \<and> (\<exists>hop. Hop_new authorization = Inr hop \<and> Hop_authType hop = tag
                  \<and> (\<forall>k. authType (sdks hop k) = tag)))
   \<and> authType (snd (getAllDeployments srv teamId client)) = authType client
   \<and> authType (snd (getDeployment srv a b client)) = authType client
   \<and> authType (snd (createDeployment parseSize srv configOrTeam cfg client)) = authType client
   \<and> authType (snd (updateContainerState srv c st client)) = authType client
   \<and> Ignite_authType (snd (getDeployments srv teamId this)) = Ignite_authType this
   \<and> Ignite_authType (snd (Ignite_createDeployment parseSize srv configOrTeam cfg this)) =
        Ignite_authType this
   \<and> Hop_authType (snd (containers_stop srv c hop)) = Hop_authType hop
   \<and> (\<forall>k. authType (sdks (snd (containers_stop srv c hop)) k) = authType (sdks hop k))
   \<and> Hop_authType (snd (containers_start srv c hop)) = Hop_authType hop
   \<and> (\<forall>k. authType (sdks (snd (containers_start srv c hop)) k) = authType (sdks hop k))"
  by (simp add: getAuthType_def validateId_def getAllDeployments_authType getDeployment_authType
        createDeployment_authType updateContainerState_authType getDeployments_authType
        Ignite_createDeployment_authType containers_stop_authType containers_start_authType
        APIClient_new_def Ignite_new_def Hop_new_def)

theorem authType_fixed_at_construction_witness:
  "getAuthType ''pat_abc123'' = Inr pat
   \<and> Hop_new ''pat_abc123'' =
       Inr \<lparr>sdks = (\<lambda>k. \<lparr>authType = pat, dispatched = []\<rparr>), Hop_authType = pat\<rparr>
   \<and> Ignite_new ''pat_abc123'' =
       Inr \<lparr>Ignite_client = \<lparr>authType = pat, dispatched = []\<rparr>, Ignite_authType = pat\<rparr>
   \<and> authType (snd (getDeployment Inr ''team_abc'' (Some ''my-app'')
        \<lparr>authType = pat, dispatched = []\<rparr>)) = pat"
  using
    authType_fixed_at_construction [of "''abc123''" "''pat_abc123''" pat Inr None
      "\<lparr>authType = pat, dispatched = []\<rparr>" "''team_abc''" "Some ''my-app''"]
  by (auto simp: APIClient_new_def Ignite_new_def Hop_new_def)

section \<open>The two versions of listing deployments\<close>

text \<open>
  C9. Under pat with no team ID the two implementations part: \<^verbatim>\<open>getAllDeployments\<close>
  raises its "required" error and dispatches nothing, while \<^verbatim>\<open>getDeployments\<close>,
  whose first test names \<^verbatim>\<open>bearer\<close> alone, dispatches
  \<^verbatim>\<open>GET /v1/ignite/deployments\<close> with no parameters.
\<close>

theorem getDeployments_pat_without_team:
  "getAllDeployments Inr None \<lparr>authType = pat, dispatched = []\<rparr> =
     (Inl (Error ''Team ID is required for Bearer or PAT authorization''),
      \<lparr>authType = pat, dispatched = []\<rparr>)
   \<and> getDeployments Inr None
       \<lparr>Ignite_client = \<lparr>authType = pat, dispatched = []\<rparr>, Ignite_authType = pat\<rparr> =
     (Inr \<lparr>httpMethod = GET, path = ''/v1/ignite/deployments'', body = None, query = None\<rparr>,
      \<lparr>Ignite_client = \<lparr>authType = pat, dispatched =
         [\<lparr>httpMethod = GET, path = ''/v1/ignite/deployments'', body = None, query = None\<rparr>]\<rparr>,
       Ignite_authType = pat\<rparr>)"
  by (simp add: getAllDeployments_def getDeployments_def client_get_def client_request_def
        Let_def)

text \<open>
  Everywhere else the two agree: they raise the same error with nothing dispatched, or
  dispatch the same request up to the empty parameter object, which the older version
  passes as \<^verbatim>\<open>undefined\<close>.
\<close>

lemma getDeployments_agrees_elsewhere:
  assumes "\<not> (Ignite_authType this = pat \<and> \<not> truthy teamId)"
    and "authType (Ignite_client this) = Ignite_authType this"
  shows "(\<exists>e. getAllDeployments srv teamId (Ignite_client this) = (Inl e, Ignite_client this)
              \<and> getDeployments srv teamId this = (Inl e, this))
         \<or> (\<exists>r r'. dispatched (snd (getAllDeployments srv teamId (Ignite_client this))) =
                       dispatched (Ignite_client this) @ [r]
                  \<and> dispatched (Ignite_client (snd (getDeployments srv teamId this))) =
                       dispatched (Ignite_client this) @ [r']
                  \<and> httpMethod r' = httpMethod r \<and> path r' = path r \<and> body r' = body r
                  \<and> (case query r' of None \<Rightarrow> [] | Some ps \<Rightarrow> ps) =
                      (case query r of None \<Rightarrow> [] | Some ps \<Rightarrow> ps))"
  using assms
  by (cases teamId; cases "Ignite_authType this")
    (auto simp: getAllDeployments_def getDeployments_def client_get_def client_request_def
          Let_def)

section \<open>The facade of the aggregate\<close>

text \<open>
  C8. Of the facade entries the constructor binds, two are not bound to the SDK
  instance that defines their method: \<^verbatim>\<open>ignite.gateways.get\<close> binds the ignite SDK's
  \<^verbatim>\<open>getGateway\<close> to \<^verbatim>\<open>this.ignite\<close>, and \<^verbatim>\<open>channels.create\<close> binds the channels
  SDK's \<^verbatim>\<open>create\<close> to the ignite SDK instance. Every other entry is bound to its own
  instance.
\<close>

theorem facade_misbound_entries:
  "filter (\<lambda>entry. \<not> bound_to_owner (snd entry)) facade =
     [(''ignite.gateways.get'', Bind ignite ''getGateway'' This_ignite),
      (''channels.create'', Bind channels ''create'' (This_sdks ignite))]"
  by (simp add: facade_def)

end
